theory Spec2Isabelle
  imports Complex_Main
begin

section \<open>jsdom-extended: a shallow embedding\<close>

text \<open>
  The package patches a window of a headless DOM: element geometry
  (\<^verbatim>\<open>patchGeometry\<close>), animation frames (\<^verbatim>\<open>patchRAF\<close>), a resize observer
  (\<^verbatim>\<open>FakeResizeObserver\<close>, \<^verbatim>\<open>patchResizeObserver\<close>), location helpers
  (\<^verbatim>\<open>patchLocation\<close>, \<^verbatim>\<open>hasValidLocation\<close>, \<^verbatim>\<open>navigateTo\<close>,
  \<^verbatim>\<open>getLocationInfo\<close>) and the composer \<^verbatim>\<open>applyJsdomExtended\<close>.

  Every function of the source becomes a function on an explicit state. A window is a
  record; everything outside the window that the code reads or writes (the module-level
  map of \<^verbatim>\<open>raf.ts\<close>, the closure environments, the host's timers, the console) is the
  record \<open>realm\<close>. A \<^verbatim>\<open>TypeError\<close> thrown by the runtime is the left summand of the
  result; a function that throws is left at once, and the model does not keep the state it
  had reached. Callbacks are user code and opaque: a callback is a number naming it, and
  the model records each invocation with its arguments, in the order they happen.
\<close>

subsection \<open>Values, properties and objects\<close>

text \<open>
  Function objects have an identity. The package creates four kinds: the method literal
  of \<^verbatim>\<open>patchGeometry\<close> (a new object at each evaluation, numbered by the allocation that
  made it), the two arrow functions of \<^verbatim>\<open>patchRAF\<close> (closed over the environment of
  one call of \<^verbatim>\<open>patchRAF\<close>, which holds that call's \<^verbatim>\<open>rafId\<close>), and the class
  \<^verbatim>\<open>FakeResizeObserver\<close> (one object for the module). \<open>HostFn\<close> is a function of the
  host environment.
\<close>

datatype fn =
    RectMock nat
  | RequestFrame nat
  | CancelFrame nat
  | ResizeObserverClass
  | HostFn nat

datatype val = Undefined | Num int | Fn fn

datatype error = TypeError

text \<open>
  An own data property with its three attributes, and an ordinary object: its own
  properties and whether it is extensible. The objects of this development hold data
  properties only, as jsdom defines the ones the package touches.
\<close>

record property =
  p_value :: val
  p_writable :: bool
  p_enumerable :: bool
  p_configurable :: bool

record obj =
  props :: "string \<rightharpoonup> property"
  extensible :: bool

text \<open>
  The descriptor argument of \<^verbatim>\<open>Object.defineProperty\<close>: each field is present or
  absent.
\<close>

record desc =
  d_value :: "val option"
  d_writable :: "bool option"
  d_enumerable :: "bool option"
  d_configurable :: "bool option"

definition or_else :: "'a option \<Rightarrow> 'a \<Rightarrow> 'a" where
  "or_else v d = (case v of None \<Rightarrow> d | Some a \<Rightarrow> a)"

text \<open>
  \<^verbatim>\<open>Object.defineProperty(o, name, d)\<close> for a data descriptor, after ECMAScript's
  ValidateAndApplyPropertyDescriptor. A new property takes the descriptor's fields and
  \<^verbatim>\<open>false\<close>/\<^verbatim>\<open>undefined\<close> for the absent ones. A property that is not configurable
  rejects a descriptor that makes it configurable or changes its enumerability, and, when
  it is not writable either, one that makes it writable or carries another value
  (SameValue; on function objects, identity). A rejected definition throws
  \<^verbatim>\<open>TypeError\<close>.
\<close>

definition defineProperty :: "obj \<Rightarrow> string \<Rightarrow> desc \<Rightarrow> error + obj" where
  "defineProperty o' name d =
     (case props o' name of
        None \<Rightarrow>
          if \<not> extensible o' then Inl TypeError
          else Inr (o'\<lparr>props := (props o')(name \<mapsto>
                 \<lparr>p_value = or_else (d_value d) Undefined,
                  p_writable = or_else (d_writable d) False,
                  p_enumerable = or_else (d_enumerable d) False,
                  p_configurable = or_else (d_configurable d) False\<rparr>)\<rparr>)
      | Some cur \<Rightarrow>
          if \<not> p_configurable cur \<and>
             (d_configurable d = Some True
              \<or> (d_enumerable d \<noteq> None \<and> d_enumerable d \<noteq> Some (p_enumerable cur))
              \<or> (\<not> p_writable cur \<and>
                  (d_writable d = Some True
                   \<or> (d_value d \<noteq> None \<and> d_value d \<noteq> Some (p_value cur)))))
          then Inl TypeError
          else Inr (o'\<lparr>props := (props o')(name \<mapsto>
                 \<lparr>p_value = or_else (d_value d) (p_value cur),
                  p_writable = or_else (d_writable d) (p_writable cur),
                  p_enumerable = or_else (d_enumerable d) (p_enumerable cur),
                  p_configurable = or_else (d_configurable d) (p_configurable cur)\<rparr>)\<rparr>))"

text \<open>
  The assignment \<^verbatim>\<open>o.name = v\<close> in strict code (the package is an ES module), on an
  object whose prototypes hold no property of that name: an own property takes the value
  when it is writable, an absent one is created (writable, enumerable, configurable) when
  the object is extensible; otherwise the assignment throws \<^verbatim>\<open>TypeError\<close>.
\<close>

definition assign :: "obj \<Rightarrow> string \<Rightarrow> val \<Rightarrow> error + obj" where
  "assign o' name v =
     (case props o' name of
        None \<Rightarrow>
          if extensible o'
          then Inr (o'\<lparr>props := (props o')(name \<mapsto>
                 \<lparr>p_value = v, p_writable = True, p_enumerable = True,
                  p_configurable = True\<rparr>)\<rparr>)
          else Inl TypeError
      | Some cur \<Rightarrow>
          if p_writable cur
          then Inr (o'\<lparr>props := (props o')(name \<mapsto> cur\<lparr>p_value := v\<rparr>)\<rparr>)
          else Inl TypeError)"

text \<open>Reading an own property: its value, or \<^verbatim>\<open>undefined\<close>.\<close>

definition read :: "obj \<Rightarrow> string \<Rightarrow> val" where
  "read o' name = (case props o' name of None \<Rightarrow> Undefined | Some p \<Rightarrow> p_value p)"

subsection \<open>Windows and elements\<close>

text \<open>
  The location object of the host, with the nine string properties the package reads.
\<close>

record location =
  href :: string
  origin :: string
  protocol :: string
  host :: string
  hostname :: string
  port :: string
  pathname :: string
  search :: string
  hash :: string

text \<open>
  The window the patches receive: \<open>own\<close> is the window object itself (its own
  properties), \<open>HTMLElement_prototype\<close> the object \<^verbatim>\<open>win.HTMLElement.prototype\<close>, and
  \<open>location\<close> the state of \<^verbatim>\<open>win.location\<close>.
\<close>

record window =
  own :: obj
  HTMLElement_prototype :: obj
  location :: location

text \<open>
  An element is given by the chain of objects a property lookup walks: the element
  itself, then its prototypes in order. A link is \<^verbatim>\<open>win.HTMLElement.prototype\<close>, read
  from the window as it is at the time of the lookup, or another object, which the package
  never writes to.
\<close>

datatype link = HTMLElementPrototype | Other obj

fun resolve :: "window \<Rightarrow> link \<Rightarrow> obj" where
  "resolve win HTMLElementPrototype = HTMLElement_prototype win"
| "resolve win (Other ob) = ob"

fun get :: "window \<Rightarrow> link list \<Rightarrow> string \<Rightarrow> val" where
  "get win [] name = Undefined"
| "get win (l # ls) name =
     (case props (resolve win l) name of
        None \<Rightarrow> get win ls name
      | Some p \<Rightarrow> p_value p)"

subsection \<open>The geometry patch\<close>

record rect =
  rect_width :: int
  rect_height :: int
  rect_top :: int
  rect_left :: int
  rect_bottom :: int
  rect_right :: int
  rect_x :: int
  rect_y :: int

text \<open>The object literal the method of \<^verbatim>\<open>patchGeometry\<close> returns.\<close>

definition mockRect :: rect where
  "mockRect = \<lparr>rect_width = 100, rect_height = 50, rect_top = 0, rect_left = 0,
     rect_bottom = 50, rect_right = 100, rect_x = 0, rect_y = 0\<rparr>"

text \<open>
  What the package reads and writes outside the window it is given.
  \<^item> \<open>rafHandles\<close> is the map declared at line 1 of \<^verbatim>\<open>raf.ts\<close>, at module level: one
    map for the module, whatever number of windows is patched. Its keys are JavaScript
    numbers, here integers, since \<^verbatim>\<open>cancelAnimationFrame\<close> takes any of them.
  \<^item> \<open>rafId\<close> gives each closure environment made by a call of \<^verbatim>\<open>patchRAF\<close> its
    variable \<^verbatim>\<open>rafId\<close>; \<open>environments\<close> counts the environments made so far. The
    counter starts at 0 and is only incremented, so it is a natural number (JavaScript
    numbers are exact on integers below \<open>2^53\<close>, which bounds the runs the model
    describes).
  \<^item> \<open>literals\<close> and \<open>observers\<close> count the method literals \<^verbatim>\<open>patchGeometry\<close> has
    evaluated and the \<^verbatim>\<open>FakeResizeObserver\<close> instances constructed; they give new
    objects their identity.
  \<^item> \<open>timers\<close> is the host's set of armed timers, each with the closure and delay given
    to \<^verbatim>\<open>setTimeout\<close>; \<open>timeouts\<close> counts the timers created, and a timer's number
    stands for the \<^verbatim>\<open>Timeout\<close> object \<^verbatim>\<open>setTimeout\<close> returns (an object, so always
    truthy). \<open>cleared\<close> lists the armed timers that \<^verbatim>\<open>clearTimeout\<close> disarmed.
  \<^item> \<open>calls\<close> lists the invocations of callbacks, \<open>warnings\<close> the messages given to
    \<^verbatim>\<open>console.warn\<close>.
\<close>

text \<open>
  The arrow function of lines 14 to 17 of \<^verbatim>\<open>raf.ts\<close>, given to \<^verbatim>\<open>setTimeout\<close>: it
  has captured \<^verbatim>\<open>id\<close> and \<^verbatim>\<open>cb\<close>.
\<close>

record closure =
  c_id :: int
  c_cb :: nat

record content_rect =
  width :: int
  height :: int

record entry =
  target :: nat
  contentRect :: content_rect

text \<open>
  An instance of \<^verbatim>\<open>FakeResizeObserver\<close>: its identity and its private field
  \<^verbatim>\<open>cb\<close>, which the class never reassigns.
\<close>

record observer =
  oid :: nat
  cb :: nat

text \<open>
  An invocation of a callback: \<open>FrameCall id cb now\<close> is the call \<^verbatim>\<open>cb(now)\<close> made by the
  timer closure that captured \<^verbatim>\<open>id\<close>; \<open>ResizeCall cb entries this\<close> is the call
  \<^verbatim>\<open>this.cb(entries, this)\<close> of \<^verbatim>\<open>observe\<close>.
\<close>

datatype call =
    FrameCall int nat real
  | ResizeCall nat "entry list" observer

record realm =
  rafHandles :: "int \<rightharpoonup> nat"
  rafId :: "nat \<Rightarrow> nat"
  environments :: nat
  literals :: nat
  observers :: nat
  timers :: "nat \<rightharpoonup> closure \<times> nat"
  timeouts :: nat
  cleared :: "(nat \<times> closure) list"
  calls :: "call list"
  warnings :: "string list"

text \<open>The realm when the module has just been loaded.\<close>

definition realm0 :: realm where
  "realm0 = \<lparr>rafHandles = Map.empty, rafId = (\<lambda>_. 0), environments = 0, literals = 0,
     observers = 0, timers = Map.empty, timeouts = 0, cleared = [], calls = [],
     warnings = []\<rparr>"

text \<open>
  \<^verbatim>\<open>patchGeometry\<close>: three calls of \<^verbatim>\<open>Object.defineProperty\<close>, in the source's order.
  The first descriptor has a \<^verbatim>\<open>value\<close> only, a method literal evaluated anew at each
  call; the other two are \<^verbatim>\<open>{value, writable: true, configurable: true}\<close>.
\<close>

definition patchGeometry :: "window \<Rightarrow> realm \<Rightarrow> error + window \<times> realm" where
  "patchGeometry win r =
     (case defineProperty (HTMLElement_prototype win) ''getBoundingClientRect''
             \<lparr>d_value = Some (Fn (RectMock (literals r))), d_writable = None,
              d_enumerable = None, d_configurable = None\<rparr> of
        Inl e \<Rightarrow> Inl e
      | Inr proto \<Rightarrow>
          (case defineProperty (own win) ''innerWidth''
                  \<lparr>d_value = Some (Num 1280), d_writable = Some True,
                   d_enumerable = None, d_configurable = Some True\<rparr> of
             Inl e \<Rightarrow> Inl e
           | Inr o1 \<Rightarrow>
               (case defineProperty o1 ''innerHeight''
                       \<lparr>d_value = Some (Num 720), d_writable = Some True,
                        d_enumerable = None, d_configurable = Some True\<rparr> of
                  Inl e \<Rightarrow> Inl e
                | Inr o2 \<Rightarrow>
                    Inr (win\<lparr>HTMLElement_prototype := proto, own := o2\<rparr>,
                         r\<lparr>literals := literals r + 1\<rparr>))))"

text \<open>
  The call \<^verbatim>\<open>e.getBoundingClientRect()\<close> on the element with lookup chain \<open>chain\<close>: the
  method literal of the patch returns \<open>mockRect\<close>, whatever the element; a host function
  returns what the host decides (\<open>hostRect\<close>); a value that is no function cannot be
  called. The package stores its other function objects on the window only, never under
  this name; the model does not describe calling them as this method and answers as for a
  value that cannot be called.
\<close>

definition getBoundingClientRect ::
  "(nat \<Rightarrow> rect) \<Rightarrow> window \<Rightarrow> link list \<Rightarrow> error + rect" where
  "getBoundingClientRect hostRect win chain =
     (case get win chain ''getBoundingClientRect'' of
        Fn (RectMock k) \<Rightarrow> Inr mockRect
      | Fn (HostFn k) \<Rightarrow> Inr (hostRect k)
      | _ \<Rightarrow> Inl TypeError)"

subsection \<open>The animation-frame shim\<close>

text \<open>The host's timers.\<close>

definition setTimeout :: "closure \<Rightarrow> nat \<Rightarrow> realm \<Rightarrow> nat \<times> realm" where
  "setTimeout f delay r =
     (timeouts r,
      r\<lparr>timers := (timers r)(timeouts r \<mapsto> (f, delay)), timeouts := timeouts r + 1\<rparr>)"

definition clearTimeout :: "nat \<Rightarrow> realm \<Rightarrow> realm" where
  "clearTimeout t r =
     (case timers r t of
        None \<Rightarrow> r
      | Some (f, delay) \<Rightarrow>
          r\<lparr>timers := (timers r)(t := None), cleared := cleared r @ [(t, f)]\<rparr>)"

text \<open>
  \<^verbatim>\<open>win.requestAnimationFrame\<close> as \<^verbatim>\<open>patchRAF\<close> defines it, for the closure
  environment \<open>env\<close> (lines 12 to 20): \<^verbatim>\<open>++rafId\<close> in that environment, a timer of 16 ms
  for the closure, and the entry in the module's map.
\<close>

definition requestAnimationFrame :: "nat \<Rightarrow> nat \<Rightarrow> realm \<Rightarrow> int \<times> realm" where
  "requestAnimationFrame env cb' r =
     (let r1 = r\<lparr>rafId := (rafId r)(env := rafId r env + 1)\<rparr>;
          id' = int (rafId r1 env);
          (timeoutId, r2) = setTimeout \<lparr>c_id = id', c_cb = cb'\<rparr> 16 r1;
          r3 = r2\<lparr>rafHandles := (rafHandles r2)(id' \<mapsto> timeoutId)\<rparr>
      in (id', r3))"

text \<open>
  \<^verbatim>\<open>win.cancelAnimationFrame\<close> (lines 22 to 28). It reads no variable of its
  environment, only the module's map.
\<close>

definition cancelAnimationFrame :: "int \<Rightarrow> realm \<Rightarrow> realm" where
  "cancelAnimationFrame id' r =
     (case rafHandles r id' of
        None \<Rightarrow> r
      | Some timeoutId \<Rightarrow>
          (let r1 = clearTimeout timeoutId r
           in r1\<lparr>rafHandles := (rafHandles r1)(id' := None)\<rparr>))"

text \<open>
  The host fires the armed timer \<open>t\<close> and runs its closure (lines 15 and 16): the entry
  of the captured \<^verbatim>\<open>id\<close> is deleted, then \<^verbatim>\<open>cb\<close> is called with
  \<^verbatim>\<open>win.performance.now()\<close>, here \<open>now\<close>. A timer that is not armed never fires.
\<close>

definition fire :: "nat \<Rightarrow> real \<Rightarrow> realm \<Rightarrow> realm" where
  "fire t now r =
     (case timers r t of
        None \<Rightarrow> r
      | Some (f, delay) \<Rightarrow>
          (let r1 = r\<lparr>timers := (timers r)(t := None)\<rparr>;
               r2 = r1\<lparr>rafHandles := (rafHandles r1)(c_id f := None)\<rparr>
           in r2\<lparr>calls := calls r2 @ [FrameCall (c_id f) (c_cb f) now]\<rparr>))"

text \<open>
  \<^verbatim>\<open>patchRAF\<close> (lines 10 to 29): a new environment with \<^verbatim>\<open>rafId = 0\<close>, and the two
  assignments to the window.
\<close>

definition patchRAF :: "window \<Rightarrow> realm \<Rightarrow> error + window \<times> realm" where
  "patchRAF win r =
     (let env = environments r;
          r1 = r\<lparr>environments := env + 1, rafId := (rafId r)(env := 0)\<rparr>
      in case assign (own win) ''requestAnimationFrame'' (Fn (RequestFrame env)) of
           Inl e \<Rightarrow> Inl e
         | Inr o1 \<Rightarrow>
             (case assign o1 ''cancelAnimationFrame'' (Fn (CancelFrame env)) of
                Inl e \<Rightarrow> Inl e
              | Inr o2 \<Rightarrow> Inr (win\<lparr>own := o2\<rparr>, r1)))"

subsection \<open>The resize observer\<close>


definition observe :: "observer \<Rightarrow> nat \<Rightarrow> realm \<Rightarrow> realm" where
  "observe this el r =
     r\<lparr>calls := calls r @
        [ResizeCall (cb this)
           [\<lparr>target = el, contentRect = \<lparr>width = 100, height = 100\<rparr>\<rparr>] this]\<rparr>"

definition disconnect :: "observer \<Rightarrow> realm \<Rightarrow> realm" where
  "disconnect this r = r"

definition unobserve :: "observer \<Rightarrow> realm \<Rightarrow> realm" where
  "unobserve this r = r"

definition patchResizeObserver :: "window \<Rightarrow> realm \<Rightarrow> error + window \<times> realm" where
  "patchResizeObserver win r =
     (case assign (own win) ''ResizeObserver'' (Fn ResizeObserverClass) of
        Inl e \<Rightarrow> Inl e
      | Inr o1 \<Rightarrow> Inr (win\<lparr>own := o1\<rparr>, r))"

subsection \<open>The location helpers\<close>

definition location_warning :: string where
  "location_warning =
     ''[jsdom-extended] window.location is about:blank. '' @
     ''For full location support, create JSDOM with a URL: '' @
     ''new JSDOM(html, { url: '' @ [CHR 0x22] @ ''http://localhost/'' @ [CHR 0x22] @ '' })''"

definition patchLocation :: "window \<Rightarrow> realm \<Rightarrow> error + window \<times> realm" where
  "patchLocation win r =
     (if href (location win) = ''about:blank''
      then Inr (win, r\<lparr>warnings := warnings r @ [location_warning]\<rparr>)
      else Inr (win, r))"

definition hasValidLocation :: "window \<Rightarrow> bool" where
  "hasValidLocation win = (href (location win) \<noteq> ''about:blank'')"

text \<open>
  \<^verbatim>\<open>navigateTo\<close> assigns \<^verbatim>\<open>win.location.href\<close>; what the location becomes, or that
  the setter throws, is the host's decision \<open>nav\<close>.
\<close>

definition navigateTo ::
  "(string \<Rightarrow> location \<Rightarrow> error + location) \<Rightarrow> window \<Rightarrow> string \<Rightarrow> error + window" where
  "navigateTo nav win url =
     (case nav url (location win) of
        Inl e \<Rightarrow> Inl e
      | Inr l \<Rightarrow> Inr (win\<lparr>location := l\<rparr>))"

text \<open>
  \<^verbatim>\<open>getLocationInfo\<close> returns a new object literal: its properties in the order of the
  literal, each with the string read from the location.
\<close>

definition getLocationInfo :: "window \<Rightarrow> (string \<times> string) list" where
  "getLocationInfo win =
     (let l = location win
      in [(''href'', href l), (''origin'', origin l), (''protocol'', protocol l),
          (''host'', host l), (''hostname'', hostname l), (''port'', port l),
          (''pathname'', pathname l), (''search'', search l), (''hash'', hash l)])"

subsection \<open>The composer\<close>

text \<open>\<^verbatim>\<open>applyJsdomExtended\<close> of \<^verbatim>\<open>setup.ts\<close>: the four patches in order.\<close>

definition applyJsdomExtended :: "window \<Rightarrow> realm \<Rightarrow> error + window \<times> realm" where
  "applyJsdomExtended win r =
     (case patchGeometry win r of
        Inl e \<Rightarrow> Inl e
      | Inr (w1, r1) \<Rightarrow>
          (case patchRAF w1 r1 of
             Inl e \<Rightarrow> Inl e
           | Inr (w2, r2) \<Rightarrow>
               (case patchResizeObserver w2 r2 of
                  Inl e \<Rightarrow> Inl e
                | Inr (w3, r3) \<Rightarrow> patchLocation w3 r3)))"

subsection \<open>Runs of one installation\<close>

text \<open>
  What can happen to one installation of the shim: the page schedules a frame, cancels a
  handle (any integer), or the host fires a timer. A run is a sequence of such steps.
\<close>

datatype action = Schedule nat | Cancel int | Fire nat real

fun step :: "nat \<Rightarrow> action \<Rightarrow> realm \<Rightarrow> realm" where
  "step env (Schedule c) r = snd (requestAnimationFrame env c r)"
| "step env (Cancel h) r = cancelAnimationFrame h r"
| "step env (Fire t now) r = fire t now r"

definition run :: "nat \<Rightarrow> action list \<Rightarrow> realm \<Rightarrow> realm" where
  "run env steps r = fold (step env) steps r"

text \<open>
  The handles that \<^verbatim>\<open>requestAnimationFrame\<close> returned to the page during a run, in order:
  what the page holds, whatever the realm records.
\<close>

fun returned :: "nat \<Rightarrow> action list \<Rightarrow> realm \<Rightarrow> int list" where
  "returned env [] r = []"
| "returned env (Schedule c # steps) r =
     fst (requestAnimationFrame env c r)
       # returned env steps (snd (requestAnimationFrame env c r))"
| "returned env (Cancel h # steps) r = returned env steps (cancelAnimationFrame h r)"
| "returned env (Fire t now # steps) r = returned env steps (fire t now r)"

text \<open>Scheduling the callbacks \<open>cs\<close> one after the other; the handles in order.\<close>

fun schedule_all :: "nat \<Rightarrow> nat list \<Rightarrow> realm \<Rightarrow> int list \<times> realm" where
  "schedule_all env [] r = ([], r)"
| "schedule_all env (c # cs) r =
     (let (h, r1) = requestAnimationFrame env c r;
          (hs, r2) = schedule_all env cs r1
      in (h # hs, r2))"

text \<open>
  The handles an installation has issued are \<open>1\<close> to its \<^verbatim>\<open>rafId\<close>. A handle has fired
  when the closure that captured it has called its callback; it was cancelled when
  \<^verbatim>\<open>clearTimeout\<close> disarmed the timer of that closure.
\<close>

fun frame_ids :: "call list \<Rightarrow> int list" where
  "frame_ids [] = []"
| "frame_ids (FrameCall h c now # cs) = h # frame_ids cs"
| "frame_ids (ResizeCall c es ob # cs) = frame_ids cs"

definition fired :: "realm \<Rightarrow> int set" where
  "fired r = set (frame_ids (calls r))"

definition cancelled :: "realm \<Rightarrow> int set" where
  "cancelled r = set (map (\<lambda>(t, f). c_id f) (cleared r))"

definition issued :: "nat \<Rightarrow> realm \<Rightarrow> int set" where
  "issued env r = {1 .. int (rafId r env)}"

text \<open>
  The invariant of a realm with one installation \<open>env\<close>: every entry of the table names
  an armed timer whose closure captured the entry's key; every armed timer has its entry;
  and the issued handles are split into the pending ones (in the table), the fired ones
  and the cancelled ones.
\<close>

definition table_armed :: "realm \<Rightarrow> bool" where
  "table_armed r \<longleftrightarrow>
     (\<forall>h t. rafHandles r h = Some t \<longrightarrow> (\<exists>f d. timers r t = Some (f, d) \<and> c_id f = h))"

definition armed_tabled :: "realm \<Rightarrow> bool" where
  "armed_tabled r \<longleftrightarrow>
     (\<forall>t f d. timers r t = Some (f, d) \<longrightarrow> rafHandles r (c_id f) = Some t \<and> t < timeouts r)"

definition accounted :: "nat \<Rightarrow> realm \<Rightarrow> bool" where
  "accounted env r \<longleftrightarrow>
     dom (rafHandles r) \<subseteq> issued env r \<and>
     fired r \<subseteq> issued env r - dom (rafHandles r) \<and>
     cancelled r \<subseteq> issued env r - dom (rafHandles r) \<and>
     issued env r \<subseteq> dom (rafHandles r) \<union> fired r \<union> cancelled r \<and>
     fired r \<inter> cancelled r = {}"

definition raf_inv :: "nat \<Rightarrow> realm \<Rightarrow> bool" where
  "raf_inv env r \<longleftrightarrow> table_armed r \<and> armed_tabled r \<and> accounted env r"

subsection \<open>Elements that inherit from \<^verbatim>\<open>HTMLElement.prototype\<close>\<close>

text \<open>
  The lookup of \<open>name\<close> on the element reaches \<^verbatim>\<open>win.HTMLElement.prototype\<close>: no object
  before it in the chain has an own property of that name.
\<close>

fun inherits_from_HTMLElement :: "link list \<Rightarrow> string \<Rightarrow> bool" where
  "inherits_from_HTMLElement [] name = False"
| "inherits_from_HTMLElement (HTMLElementPrototype # ls) name = True"
| "inherits_from_HTMLElement (Other ob # ls) name =
     (props ob name = None \<and> inherits_from_HTMLElement ls name)"

subsection \<open>A jsdom window\<close>

text \<open>
  Concrete inputs, after jsdom. A new window has \<^verbatim>\<open>innerWidth\<close> 1024 and
  \<^verbatim>\<open>innerHeight\<close> 768 as ordinary data properties; \<^verbatim>\<open>getBoundingClientRect\<close> is a
  method of \<^verbatim>\<open>Element.prototype\<close>, which returns a rectangle of zeros, and
  \<^verbatim>\<open>HTMLElement.prototype\<close> has no property of that name. A \<^verbatim>\<open>div\<close> inherits from
  \<^verbatim>\<open>HTMLDivElement.prototype\<close>, \<^verbatim>\<open>HTMLElement.prototype\<close> and \<^verbatim>\<open>Element.prototype\<close>; an
  \<^verbatim>\<open>svg\<close> element from \<^verbatim>\<open>SVGSVGElement.prototype\<close>, \<^verbatim>\<open>SVGGraphicsElement.prototype\<close>,
  \<^verbatim>\<open>SVGElement.prototype\<close> and \<^verbatim>\<open>Element.prototype\<close>. A window created without a URL is
  at \<^verbatim>\<open>about:blank\<close>.
\<close>

definition plain :: "val \<Rightarrow> property" where
  "plain v = \<lparr>p_value = v, p_writable = True, p_enumerable = True, p_configurable = True\<rparr>"

definition empty_object :: obj where
  "empty_object = \<lparr>props = Map.empty, extensible = True\<rparr>"

definition jsdom_window :: window where
  "jsdom_window =
     \<lparr>own = \<lparr>props = [''innerWidth'' \<mapsto> plain (Num 1024),
                       ''innerHeight'' \<mapsto> plain (Num 768)],
             extensible = True\<rparr>,
      HTMLElement_prototype = empty_object,
      location = \<lparr>href = ''about:blank'', origin = ''null'', protocol = ''about:'',
        host = [], hostname = [], port = [], pathname = ''blank'', search = [],
        hash = []\<rparr>\<rparr>"

definition localhost_window :: window where
  "localhost_window =
     jsdom_window\<lparr>location := \<lparr>href = ''http://localhost:3000/'',
        origin = ''http://localhost:3000'', protocol = ''http:'', host = ''localhost:3000'',
        hostname = ''localhost'', port = ''3000'', pathname = ''/'', search = [],
        hash = []\<rparr>\<rparr>"

definition Element_prototype :: obj where
  "Element_prototype =
     \<lparr>props = [''getBoundingClientRect'' \<mapsto> plain (Fn (HostFn 0))], extensible = True\<rparr>"

definition div_element :: "link list" where
  "div_element = [Other empty_object, Other empty_object, HTMLElementPrototype,
     Other Element_prototype]"

definition svg_element :: "link list" where
  "svg_element = [Other empty_object, Other empty_object, Other empty_object,
     Other empty_object, Other Element_prototype]"

definition jsdom_rect :: "nat \<Rightarrow> rect" where
  "jsdom_rect k = \<lparr>rect_width = 0, rect_height = 0, rect_top = 0, rect_left = 0,
     rect_bottom = 0, rect_right = 0, rect_x = 0, rect_y = 0\<rparr>"

text \<open>
  A navigation the host carries out: to a URL of the same document that differs in the
  fragment \<^verbatim>\<open>#top\<close>.
\<close>

definition fragment_navigation :: "string \<Rightarrow> location \<Rightarrow> error + location" where
  "fragment_navigation url l = Inr (l\<lparr>href := url, hash := ''#top''\<rparr>)"

section \<open>Theorems\<close>

subsection \<open>Location validation\<close>

text \<open>
  Claim C9. For every window and realm, \<^verbatim>\<open>patchLocation\<close> returns normally (it raises
  nothing) with the window it was given, so the location is not mutated. When the
  location's \<^verbatim>\<open>href\<close> is \<^verbatim>\<open>about:blank\<close>, \<^verbatim>\<open>hasValidLocation\<close> is false and the realm
  differs from the one before by exactly one more warning; for any other \<^verbatim>\<open>href\<close>,
  \<^verbatim>\<open>hasValidLocation\<close> is true and the realm is unchanged, so nothing was emitted.
\<close>

theorem patchLocation_advisory:
  "\<exists>r'. patchLocation win r = Inr (win, r') \<and>
     (if href (location win) = ''about:blank''
      then \<not> hasValidLocation win \<and> r' = r\<lparr>warnings := warnings r @ [location_warning]\<rparr>
      else hasValidLocation win \<and> r' = r)"
  by (simp add: patchLocation_def hasValidLocation_def)

subsection \<open>The animation-frame shim: what each operation does to the realm\<close>

lemma frame_ids_append: "frame_ids (xs @ ys) = frame_ids xs @ frame_ids ys"
  by (induction xs rule: frame_ids.induct) auto

lemma request_fields:
  "rafHandles (snd (requestAnimationFrame env c r)) =
     (rafHandles r)(int (rafId r env) + 1 \<mapsto> timeouts r)"
  "timers (snd (requestAnimationFrame env c r)) =
     (timers r)(timeouts r \<mapsto> (\<lparr>c_id = int (rafId r env) + 1, c_cb = c\<rparr>, 16))"
  "timeouts (snd (requestAnimationFrame env c r)) = timeouts r + 1"
  "rafId (snd (requestAnimationFrame env c r)) = (rafId r)(env := rafId r env + 1)"
  "calls (snd (requestAnimationFrame env c r)) = calls r"
  "cleared (snd (requestAnimationFrame env c r)) = cleared r"
  "fst (requestAnimationFrame env c r) = int (rafId r env) + 1"
  by (simp_all add: requestAnimationFrame_def setTimeout_def Let_def add.commute)

lemma request_sets:
  "fired (snd (requestAnimationFrame env c r)) = fired r"
  "cancelled (snd (requestAnimationFrame env c r)) = cancelled r"
  "issued env (snd (requestAnimationFrame env c r)) =
     insert (int (rafId r env) + 1) (issued env r)"
  by (auto simp: fired_def cancelled_def issued_def request_fields)

lemma cancel_unknown: "rafHandles r h = None \<Longrightarrow> cancelAnimationFrame h r = r"
  by (simp add: cancelAnimationFrame_def)

lemma cancel_live:
  assumes "rafHandles r h = Some t" "timers r t = Some (f, d)"
  shows "cancelAnimationFrame h r =
           r\<lparr>timers := (timers r)(t := None), cleared := cleared r @ [(t, f)],
             rafHandles := (rafHandles r)(h := None)\<rparr>"
  using assms by (simp add: cancelAnimationFrame_def clearTimeout_def Let_def)

lemma fire_spent: "timers r t = None \<Longrightarrow> fire t now r = r"
  by (simp add: fire_def)

lemma fire_armed:
  assumes "timers r t = Some (f, d)"
  shows "fire t now r =
           r\<lparr>timers := (timers r)(t := None), rafHandles := (rafHandles r)(c_id f := None),
             calls := calls r @ [FrameCall (c_id f) (c_cb f) now]\<rparr>"
  using assms by (simp add: fire_def Let_def)

subsection \<open>The invariant is kept by every step\<close>

lemma table_armed_request:
  assumes "table_armed r" "armed_tabled r"
  shows "table_armed (snd (requestAnimationFrame env c r))"
  unfolding table_armed_def request_fields
proof (intro allI impI)
  fix h t
  assume ht: "((rafHandles r)(int (rafId r env) + 1 \<mapsto> timeouts r)) h = Some t"
  show "\<exists>f d. ((timers r)(timeouts r \<mapsto> (\<lparr>c_id = int (rafId r env) + 1, c_cb = c\<rparr>, 16))) t
           = Some (f, d) \<and> c_id f = h"
  proof (cases "h = int (rafId r env) + 1")
    case True
    with ht show ?thesis by simp
  next
    case False
    with ht have old: "rafHandles r h = Some t" by simp
    then obtain f d where fd: "timers r t = Some (f, d)" "c_id f = h"
      using assms(1) unfolding table_armed_def by blast
    then have "t < timeouts r" using assms(2) unfolding armed_tabled_def by blast
    with fd show ?thesis by simp
  qed
qed

lemma armed_tabled_request:
  assumes "armed_tabled r" "accounted env r"
  shows "armed_tabled (snd (requestAnimationFrame env c r))"
  unfolding armed_tabled_def request_fields
proof (intro allI impI)
  fix t f d
  assume tf: "((timers r)(timeouts r \<mapsto> (\<lparr>c_id = int (rafId r env) + 1, c_cb = c\<rparr>, 16))) t
           = Some (f, d)"
  show "((rafHandles r)(int (rafId r env) + 1 \<mapsto> timeouts r)) (c_id f) = Some t
          \<and> t < timeouts r + 1"
  proof (cases "t = timeouts r")
    case True
    with tf show ?thesis by auto
  next
    case False
    with tf have old: "timers r t = Some (f, d)" by simp
    then have tab: "rafHandles r (c_id f) = Some t" "t < timeouts r"
      using assms(1) unfolding armed_tabled_def by blast+
    then have "c_id f \<in> issued env r"
      using assms(2) unfolding accounted_def by blast
    then have "c_id f \<noteq> int (rafId r env) + 1" by (simp add: issued_def)
    with tab show ?thesis by simp
  qed
qed

lemma accounted_request:
  assumes "accounted env r"
  shows "accounted env (snd (requestAnimationFrame env c r))"
  using assms unfolding accounted_def request_sets request_fields
  by (auto simp: issued_def)

lemma raf_inv_request:
  "raf_inv env r \<Longrightarrow> raf_inv env (snd (requestAnimationFrame env c r))"
  by (simp add: raf_inv_def table_armed_request armed_tabled_request accounted_request)

text \<open>
  Removing a live entry together with its timer, as cancelling and firing both do, keeps
  the table and the timers in step.
\<close>

lemma table_armed_remove:
  assumes "table_armed r" "armed_tabled r" "rafHandles r h = Some t"
    and "timers r' = (timers r)(t := None)" "rafHandles r' = (rafHandles r)(h := None)"
  shows "table_armed r'"
  unfolding table_armed_def
proof (intro allI impI)
  fix h' t'
  assume "rafHandles r' h' = Some t'"
  with assms(5) have h': "h' \<noteq> h" "rafHandles r h' = Some t'"
    by (auto split: if_splits)
  then obtain f d where fd: "timers r t' = Some (f, d)" "c_id f = h'"
    using assms(1) unfolding table_armed_def by blast
  have "t' \<noteq> t"
  proof
    assume "t' = t"
    with assms(3) obtain f0 d0 where "timers r t = Some (f0, d0)" "c_id f0 = h"
      using assms(1) unfolding table_armed_def by blast
    with fd \<open>t' = t\<close> h' show False by simp
  qed
  with fd assms(4) show "\<exists>f d. timers r' t' = Some (f, d) \<and> c_id f = h'" by simp
qed

lemma armed_tabled_remove:
  assumes "armed_tabled r" "rafHandles r h = Some t"
    and "timers r' = (timers r)(t := None)" "rafHandles r' = (rafHandles r)(h := None)"
    and "timeouts r' = timeouts r"
  shows "armed_tabled r'"
  unfolding armed_tabled_def
proof (intro allI impI)
  fix t' f d
  assume "timers r' t' = Some (f, d)"
  with assms(3) have t': "t' \<noteq> t" "timers r t' = Some (f, d)"
    by (auto split: if_splits)
  then have tab: "rafHandles r (c_id f) = Some t'" "t' < timeouts r"
    using assms(1) unfolding armed_tabled_def by blast+
  with assms(2) t' have "c_id f \<noteq> h" by auto
  with tab assms(4,5) show "rafHandles r' (c_id f) = Some t' \<and> t' < timeouts r'" by simp
qed

lemma raf_inv_cancel:
  assumes "raf_inv env r"
  shows "raf_inv env (cancelAnimationFrame h r)"
proof (cases "rafHandles r h")
  case None
  with assms show ?thesis by (simp add: cancel_unknown)
next
  case (Some t)
  from assms have inv: "table_armed r" "armed_tabled r" "accounted env r"
    by (simp_all add: raf_inv_def)
  from Some inv(1) obtain f d where fd: "timers r t = Some (f, d)" "c_id f = h"
    unfolding table_armed_def by blast
  note eq = cancel_live [OF Some fd(1)]
  have "table_armed (cancelAnimationFrame h r)"
    by (rule table_armed_remove [OF inv(1,2) Some]) (simp_all add: eq)
  moreover have "armed_tabled (cancelAnimationFrame h r)"
    by (rule armed_tabled_remove [OF inv(2) Some]) (simp_all add: eq)
  moreover have "accounted env (cancelAnimationFrame h r)"
    using inv(3) Some fd(2) unfolding accounted_def eq
    by (auto simp: fired_def cancelled_def issued_def)
  ultimately show ?thesis by (simp add: raf_inv_def)
qed

lemma raf_inv_fire:
  assumes "raf_inv env r"
  shows "raf_inv env (fire t now r)"
proof (cases "timers r t")
  case None
  with assms show ?thesis by (simp add: fire_spent)
next
  case (Some p)
  then obtain f d where fd: "timers r t = Some (f, d)" by (cases p) simp
  from assms have inv: "table_armed r" "armed_tabled r" "accounted env r"
    by (simp_all add: raf_inv_def)
  from fd inv(2) have tab: "rafHandles r (c_id f) = Some t"
    unfolding armed_tabled_def by blast
  note eq = fire_armed [OF fd]
  have "table_armed (fire t now r)"
    by (rule table_armed_remove [OF inv(1,2) tab]) (simp_all add: eq)
  moreover have "armed_tabled (fire t now r)"
    by (rule armed_tabled_remove [OF inv(2) tab]) (simp_all add: eq)
  moreover have "accounted env (fire t now r)"
    using inv(3) tab unfolding accounted_def eq
    by (auto simp: fired_def cancelled_def issued_def frame_ids_append)
  ultimately show ?thesis by (simp add: raf_inv_def)
qed

lemma raf_inv_step: "raf_inv env r \<Longrightarrow> raf_inv env (step env a r)"
  by (cases a) (simp_all add: raf_inv_cancel raf_inv_fire raf_inv_request)

lemma raf_inv_run: "raf_inv env r \<Longrightarrow> raf_inv env (run env steps r)"
  unfolding run_def by (induction steps arbitrary: r) (simp_all add: raf_inv_step)

lemma raf_inv_patch:
  assumes "patchRAF win realm0 = Inr (win', r)"
  shows "raf_inv (environments realm0) r"
  using assms
  by (auto simp: patchRAF_def Let_def realm0_def raf_inv_def table_armed_def
      armed_tabled_def accounted_def fired_def cancelled_def issued_def split: sum.splits)

text \<open>
  \<^verbatim>\<open>patchRAF\<close> on a jsdom window when the module has just been loaded, and on a second
  window after that.
\<close>

lemma realm0_fields:
  "rafHandles realm0 = Map.empty" "rafId realm0 = (\<lambda>_. 0)" "environments realm0 = 0"
  "literals realm0 = 0" "observers realm0 = 0" "timers realm0 = Map.empty"
  "timeouts realm0 = 0" "cleared realm0 = []" "calls realm0 = []" "warnings realm0 = []"
  by (simp_all add: realm0_def)

lemma two_installations:
  "patchRAF jsdom_window realm0 =
     Inr (jsdom_window\<lparr>own := \<lparr>props = [''innerWidth'' \<mapsto> plain (Num 1024),
            ''innerHeight'' \<mapsto> plain (Num 768),
            ''requestAnimationFrame'' \<mapsto> plain (Fn (RequestFrame 0)),
            ''cancelAnimationFrame'' \<mapsto> plain (Fn (CancelFrame 0))], extensible = True\<rparr>\<rparr>,
          realm0\<lparr>environments := Suc 0\<rparr>)"
  "patchRAF localhost_window (realm0\<lparr>environments := Suc 0\<rparr>) =
     Inr (localhost_window\<lparr>own := \<lparr>props = [''innerWidth'' \<mapsto> plain (Num 1024),
            ''innerHeight'' \<mapsto> plain (Num 768),
            ''requestAnimationFrame'' \<mapsto> plain (Fn (RequestFrame 1)),
            ''cancelAnimationFrame'' \<mapsto> plain (Fn (CancelFrame 1))], extensible = True\<rparr>\<rparr>,
          realm0\<lparr>environments := 2\<rparr>)"
  by (simp_all add: patchRAF_def assign_def jsdom_window_def localhost_window_def Let_def
      plain_def realm0_def fun_upd_idem)

subsection \<open>The handle table when there is one installation\<close>

text \<open>
  Scheduling enters the handle it returns in the table, with the timer it has armed.
\<close>

lemma schedule_creates_entry:
  "rafHandles (snd (requestAnimationFrame env c r)) (fst (requestAnimationFrame env c r)) =
     Some (timeouts r) \<and>
   timers (snd (requestAnimationFrame env c r)) (timeouts r) =
     Some (\<lparr>c_id = fst (requestAnimationFrame env c r), c_cb = c\<rparr>, 16)"
  by (simp add: request_fields)

lemma rafId_cancel: "rafId (cancelAnimationFrame h r) = rafId r"
  by (simp add: cancelAnimationFrame_def clearTimeout_def Let_def split: option.splits)

lemma rafId_fire: "rafId (fire t now r) = rafId r"
  by (simp add: fire_def Let_def split: option.splits)

text \<open>
  The handles returned during a run are the ones the counter has passed: none is
  returned twice, and none is skipped.
\<close>

lemma issued_returned:
  "issued env (run env steps r) = issued env r \<union> set (returned env steps r)"
proof (induction steps arbitrary: r)
  case Nil
  show ?case by (simp add: run_def)
next
  case (Cons a steps)
  have unfold: "run env (a # steps) r = run env steps (step env a r)"
    by (simp add: run_def)
  show ?case
  proof (cases a)
    case (Schedule c)
    with Cons [of "snd (requestAnimationFrame env c r)"] show ?thesis
      unfolding unfold by (simp add: request_sets request_fields)
  next
    case (Cancel h)
    with Cons [of "cancelAnimationFrame h r"] show ?thesis
      unfolding unfold by (simp add: issued_def rafId_cancel)
  next
    case (Fire t now)
    with Cons [of "fire t now r"] show ?thesis
      unfolding unfold by (simp add: issued_def rafId_fire)
  qed
qed

text \<open>
  In a process where the module has just been loaded and \<^verbatim>\<open>patchRAF\<close> has installed the
  shim once, after every sequence of Schedule, Cancel and timer-fire steps the handles in
  the table are the handles returned to the page whose callback has neither fired nor been
  cancelled. This is all that holds of the claim about the table: it needs that no other
  installation writes to the module's map.
\<close>

lemma single_installation_table:
  assumes "patchRAF win realm0 = Inr (win', r)"
  shows "dom (rafHandles (run 0 steps r)) =
           set (returned 0 steps r) - fired (run 0 steps r) - cancelled (run 0 steps r)"
proof -
  have "raf_inv 0 (run 0 steps r)"
    using raf_inv_run [OF raf_inv_patch [OF assms]] by (simp add: realm0_def)
  then have "dom (rafHandles (run 0 steps r)) =
      issued 0 (run 0 steps r) - fired (run 0 steps r) - cancelled (run 0 steps r)"
    unfolding raf_inv_def accounted_def by blast
  moreover from assms have "issued 0 r = {}"
    by (auto simp: patchRAF_def Let_def realm0_def issued_def split: sum.splits)
  ultimately show ?thesis by (simp add: issued_returned)
qed

lemma single_installation_example:
  "returned 0 [Schedule 10, Schedule 11, Schedule 12, Cancel 1, Fire 1 16]
          (realm0\<lparr>environments := Suc 0\<rparr>) = [1, 2, 3] \<and>
   rafHandles (run 0 [Schedule 10, Schedule 11, Schedule 12, Cancel 1, Fire 1 16]
          (realm0\<lparr>environments := Suc 0\<rparr>)) = [3 \<mapsto> 2] \<and>
   fired (run 0 [Schedule 10, Schedule 11, Schedule 12, Cancel 1, Fire 1 16]
          (realm0\<lparr>environments := Suc 0\<rparr>)) = {2} \<and>
   cancelled (run 0 [Schedule 10, Schedule 11, Schedule 12, Cancel 1, Fire 1 16]
          (realm0\<lparr>environments := Suc 0\<rparr>)) = {1}"
  by (auto simp add: run_def realm0_fields requestAnimationFrame_def setTimeout_def
      cancelAnimationFrame_def clearTimeout_def fire_def Let_def fired_def cancelled_def
      fun_eq_iff)

subsection \<open>Handles issued in succession\<close>

lemma schedule_all_above:
  "length (fst (schedule_all env cs r)) = length cs \<and>
   sorted_wrt (<) (fst (schedule_all env cs r)) \<and>
   (\<forall>h \<in> set (fst (schedule_all env cs r)). int (rafId r env) < h)"
proof (induction cs arbitrary: r)
  case Nil
  show ?case by simp
next
  case (Cons c cs)
  let ?r1 = "snd (requestAnimationFrame env c r)"
  have unfold: "schedule_all env (c # cs) r =
      ((int (rafId r env) + 1) # fst (schedule_all env cs ?r1), snd (schedule_all env cs ?r1))"
    by (simp add: split_beta request_fields)
  have r1: "int (rafId ?r1 env) = int (rafId r env) + 1"
    by (simp add: request_fields)
  from Cons [of ?r1] r1 show ?case
    unfolding unfold by auto
qed

text \<open>
  Claim C6. For every list of \<open>N\<close> callbacks, every installation and every state of the
  realm, scheduling the callbacks one after the other returns \<open>N\<close> handles that are
  distinct, strictly increasing in the order they were issued, and all greater than 0.
\<close>

theorem handles_distinct_increasing:
  "length (fst (schedule_all env cs r)) = length cs \<and>
   distinct (fst (schedule_all env cs r)) \<and>
   sorted_wrt (<) (fst (schedule_all env cs r)) \<and>
   (\<forall>h \<in> set (fst (schedule_all env cs r)). 0 < h)"
  using schedule_all_above [of env cs r]
  by (auto simp: strict_sorted_iff)

theorem handles_distinct_increasing_witness:
  "length (fst (schedule_all 0 [10, 11, 12] realm0)) = 3 \<and>
   distinct (fst (schedule_all 0 [10, 11, 12] realm0)) \<and>
   sorted_wrt (<) (fst (schedule_all 0 [10, 11, 12] realm0)) \<and>
   0 < fst (schedule_all 0 [10, 11, 12] realm0) ! 2 \<and>
   fst (schedule_all 0 [10, 11, 12] realm0) = [1, 2, 3]"
proof -
  have v: "fst (schedule_all 0 [10, 11, 12] realm0) = [1, 2, 3]"
    by (simp add: split_beta request_fields realm0_def)
  from handles_distinct_increasing [of 0 "[10, 11, 12]" realm0] v show ?thesis
    by simp
qed

subsection \<open>Cancelling\<close>

text \<open>
  With one installation, cancelling a pending handle keeps its callback from ever being
  called, and cancelling a handle that is not pending changes nothing.
\<close>

lemma cancelled_step: "cancelled r \<subseteq> cancelled (step env a r)"
proof (cases a)
  case (Schedule c)
  then show ?thesis by (simp add: request_sets)
next
  case (Cancel h)
  then show ?thesis
    by (auto simp: cancelled_def cancelAnimationFrame_def clearTimeout_def Let_def
        split: option.splits)
next
  case (Fire t now)
  then show ?thesis
    by (auto simp: cancelled_def fire_def Let_def split: option.splits)
qed

lemma cancelled_run: "cancelled r \<subseteq> cancelled (run env steps r)"
  unfolding run_def
proof (induction steps arbitrary: r)
  case Nil
  show ?case by simp
next
  case (Cons a steps)
  from cancelled_step [of r env a] Cons [of "step env a r"] show ?case by auto
qed

lemma cancel_prevents_callback:
  assumes "raf_inv env r" "rafHandles r h = Some t"
  shows "h \<notin> fired (run env steps (cancelAnimationFrame h r))"
proof -
  from assms(1) have ta: "table_armed r" by (simp add: raf_inv_def)
  with assms(2) obtain f d where fd: "timers r t = Some (f, d)" "c_id f = h"
    unfolding table_armed_def by blast
  have "h \<in> cancelled (cancelAnimationFrame h r)"
    by (simp add: cancel_live [OF assms(2) fd(1)] cancelled_def fd(2))
  then have "h \<in> cancelled (run env steps (cancelAnimationFrame h r))"
    using cancelled_run by blast
  moreover have "raf_inv env (run env steps (cancelAnimationFrame h r))"
    by (intro raf_inv_run raf_inv_cancel assms(1))
  ultimately show ?thesis unfolding raf_inv_def accounted_def by blast
qed

lemma cancel_not_pending:
  assumes "raf_inv env r" "h \<notin> issued env r \<or> h \<in> fired r \<or> h \<in> cancelled r"
  shows "cancelAnimationFrame h r = r"
proof -
  from assms have "h \<notin> dom (rafHandles r)"
    unfolding raf_inv_def accounted_def by blast
  then show ?thesis by (simp add: cancel_unknown domIff)
qed

subsection \<open>Two installations\<close>

text \<open>
  Two windows are patched in one process, as a test suite does that creates a window per
  test. Each call of \<^verbatim>\<open>patchRAF\<close> makes an environment with its own \<^verbatim>\<open>rafId\<close>, and
  both environments write to the one \<open>rafHandles\<close>. The callbacks are 10, scheduled
  through the first window, and 20, scheduled through the second.
\<close>

text \<open>
  Claim C1 (the code departs from it). The claim says that two installations have each a
  handle table of their own, so that scheduling through one never touches the table of the
  other. In the code, after \<^verbatim>\<open>patchRAF\<close> on two windows, the first window schedules and
  gets handle 1, entered in the table with timer 0; the second window schedules and gets
  handle 1 as well, and its entry replaces the first window's: the table now gives timer 1
  for handle 1, and cancelling through the second window removes the entry.
\<close>

theorem installations_share_table:
  "case patchRAF jsdom_window realm0 of
     Inl e \<Rightarrow> False
   | Inr (winA, r1) \<Rightarrow>
       (case patchRAF localhost_window r1 of
          Inl e \<Rightarrow> False
        | Inr (winB, r2) \<Rightarrow>
            read (own winA) ''requestAnimationFrame'' = Fn (RequestFrame 0) \<and>
            read (own winB) ''requestAnimationFrame'' = Fn (RequestFrame 1) \<and>
            (case requestAnimationFrame 0 10 r2 of
               (hA, r3) \<Rightarrow>
                 (case requestAnimationFrame 1 20 r3 of
                    (hB, r4) \<Rightarrow>
                      hA = 1 \<and> hB = 1 \<and>
                      rafHandles r3 hA = Some 0 \<and> rafHandles r4 hA = Some 1 \<and>
                      rafHandles (cancelAnimationFrame hB r4) hA = None)))"
  by (simp add: two_installations realm0_fields read_def plain_def
      requestAnimationFrame_def setTimeout_def cancelAnimationFrame_def clearTimeout_def
      Let_def)

text \<open>
  Claim C4 (the code departs from it). The claim says that, for an installation, a handle
  is in the handle table if and only if its callback has neither fired nor been cancelled,
  after every sequence of steps. With the two installations above, the first window
  schedules callback 10 and gets handle 1, the second window schedules callback 20 and
  gets handle 1, and the second window cancels its handle. Now the first window's handle 1
  is pending: timer 0, which will call callback 10, is armed, no callback has been called,
  and the only timer cleared is timer 1, of the second window. But handle 1 is not in the
  table.
\<close>

theorem pending_handle_not_in_table:
  "case patchRAF jsdom_window realm0 of
     Inl e \<Rightarrow> False
   | Inr (winA, r1) \<Rightarrow>
       (case patchRAF localhost_window r1 of
          Inl e \<Rightarrow> False
        | Inr (winB, r2) \<Rightarrow>
            (case requestAnimationFrame 0 10 r2 of
               (hA, r3) \<Rightarrow>
                 (case requestAnimationFrame 1 20 r3 of
                    (hB, r4) \<Rightarrow>
                      hA = 1 \<and> hB = 1 \<and>
                      rafHandles r3 hA = Some 0 \<and>
                      timers (cancelAnimationFrame hB r4) 0 =
                        Some (\<lparr>c_id = hA, c_cb = 10\<rparr>, 16) \<and>
                      calls (cancelAnimationFrame hB r4) = [] \<and>
                      cleared (cancelAnimationFrame hB r4) = [(1, \<lparr>c_id = hB, c_cb = 20\<rparr>)] \<and>
                      hA \<notin> dom (rafHandles (cancelAnimationFrame hB r4)))))"
  by (simp add: two_installations realm0_fields requestAnimationFrame_def setTimeout_def
      cancelAnimationFrame_def clearTimeout_def Let_def)

text \<open>
  Claim C5 (the code departs from it). The claim says that cancelling a handle before
  its timer fires keeps its callback from ever being called. With the two installations
  above, both holding handle 1, the first window cancels its handle 1 while its timer 0 is
  armed: the timer that is cleared is timer 1, of the second window's callback 20; timer 0
  stays armed, and when it fires callback 10 is called, although its handle was cancelled.
  Callback 20, never cancelled by its owner, can no longer fire.
\<close>

theorem cancel_hits_other_installation:
  "case patchRAF jsdom_window realm0 of
     Inl e \<Rightarrow> False
   | Inr (winA, r1) \<Rightarrow>
       (case patchRAF localhost_window r1 of
          Inl e \<Rightarrow> False
        | Inr (winB, r2) \<Rightarrow>
            (case requestAnimationFrame 0 10 r2 of
               (hA, r3) \<Rightarrow>
                 (case requestAnimationFrame 1 20 r3 of
                    (hB, r4) \<Rightarrow>
                      hA = 1 \<and>
                      timers r4 0 = Some (\<lparr>c_id = 1, c_cb = 10\<rparr>, 16) \<and>
                      timers r4 1 = Some (\<lparr>c_id = 1, c_cb = 20\<rparr>, 16) \<and>
                      timers (cancelAnimationFrame hA r4) 0 =
                        Some (\<lparr>c_id = 1, c_cb = 10\<rparr>, 16) \<and>
                      timers (cancelAnimationFrame hA r4) 1 = None \<and>
                      calls (fire 0 16 (cancelAnimationFrame hA r4)) = [FrameCall 1 10 16] \<and>
                      fire 1 17 (fire 0 16 (cancelAnimationFrame hA r4)) =
                        fire 0 16 (cancelAnimationFrame hA r4))))"
  by (simp add: two_installations realm0_fields requestAnimationFrame_def setTimeout_def
      cancelAnimationFrame_def clearTimeout_def fire_def Let_def)

subsection \<open>The geometry patch\<close>

lemma defineProperty_props:
  assumes "defineProperty ob name d = Inr ob'"
  shows "\<exists>p. props ob' = (props ob)(name \<mapsto> p) \<and>
           p_value p = or_else (d_value d)
             (case props ob name of None \<Rightarrow> Undefined | Some c \<Rightarrow> p_value c) \<and>
           p_writable p = or_else (d_writable d)
             (case props ob name of None \<Rightarrow> False | Some c \<Rightarrow> p_writable c)"
  using assms
  by (auto simp: defineProperty_def split: option.splits if_splits)

lemma get_inherited:
  assumes "inherits_from_HTMLElement chain name"
    and "props (HTMLElement_prototype win) name = Some p"
  shows "get win chain name = p_value p"
  using assms
  by (induction chain name rule: inherits_from_HTMLElement.induct) simp_all

lemma assign_writable:
  assumes "props ob name = Some p" "p_writable p"
  shows "\<exists>o2. assign ob name v = Inr o2 \<and> read o2 name = v"
  using assms by (simp add: assign_def read_def)

lemma patchGeometry_props:
  assumes "patchGeometry win r = Inr (win', r')"
  shows "\<exists>p. props (HTMLElement_prototype win') ''getBoundingClientRect'' = Some p \<and>
              p_value p = Fn (RectMock (literals r))"
    and "\<exists>p. props (own win') ''innerWidth'' = Some p \<and> p_value p = Num 1280 \<and> p_writable p"
    and "\<exists>p. props (own win') ''innerHeight'' = Some p \<and> p_value p = Num 720 \<and> p_writable p"
proof -
  from assms obtain proto o1 o2 where
    d1: "defineProperty (HTMLElement_prototype win) ''getBoundingClientRect''
           \<lparr>d_value = Some (Fn (RectMock (literals r))), d_writable = None,
            d_enumerable = None, d_configurable = None\<rparr> = Inr proto"
    and d2: "defineProperty (own win) ''innerWidth''
           \<lparr>d_value = Some (Num 1280), d_writable = Some True,
            d_enumerable = None, d_configurable = Some True\<rparr> = Inr o1"
    and d3: "defineProperty o1 ''innerHeight''
           \<lparr>d_value = Some (Num 720), d_writable = Some True,
            d_enumerable = None, d_configurable = Some True\<rparr> = Inr o2"
    and w: "win' = win\<lparr>HTMLElement_prototype := proto, own := o2\<rparr>"
    by (auto simp: patchGeometry_def split: sum.splits)
  from defineProperty_props [OF d1] w
  show "\<exists>p. props (HTMLElement_prototype win') ''getBoundingClientRect'' = Some p \<and>
              p_value p = Fn (RectMock (literals r))"
    by (auto simp: or_else_def)
  from defineProperty_props [OF d2] obtain p1 where
    p1: "props o1 = (props (own win))(''innerWidth'' \<mapsto> p1)"
      "p_value p1 = Num 1280" "p_writable p1"
    by (auto simp: or_else_def)
  from defineProperty_props [OF d3] obtain p2 where
    p2: "props o2 = (props o1)(''innerHeight'' \<mapsto> p2)"
      "p_value p2 = Num 720" "p_writable p2"
    by (auto simp: or_else_def)
  from p1 p2 w
  show "\<exists>p. props (own win') ''innerWidth'' = Some p \<and> p_value p = Num 1280 \<and> p_writable p"
    by simp
  from p2 w
  show "\<exists>p. props (own win') ''innerHeight'' = Some p \<and> p_value p = Num 720 \<and> p_writable p"
    by simp
qed

lemma jsdom_patched:
  "patchGeometry jsdom_window realm0 =
     Inr (jsdom_window\<lparr>HTMLElement_prototype :=
            \<lparr>props = [''getBoundingClientRect'' \<mapsto>
               \<lparr>p_value = Fn (RectMock 0), p_writable = False, p_enumerable = False,
                p_configurable = False\<rparr>], extensible = True\<rparr>,
          own := \<lparr>props = [''innerWidth'' \<mapsto> plain (Num 1280),
                     ''innerHeight'' \<mapsto> plain (Num 720)],
                  extensible = True\<rparr>\<rparr>, realm0\<lparr>literals := 1\<rparr>)"
  by (simp add: patchGeometry_def defineProperty_def jsdom_window_def empty_object_def
      or_else_def plain_def realm0_def)

text \<open>
  Claim C8, as stated: after the geometry patch, every element reports the fixed
  rectangle. It fails for an element that does not inherit from
  \<^verbatim>\<open>HTMLElement.prototype\<close>: in a patched jsdom window an \<^verbatim>\<open>svg\<close> element still answers
  with the host's rectangle of zeros.
\<close>

theorem svg_element_not_patched:
  "case patchGeometry jsdom_window realm0 of
     Inl e \<Rightarrow> False
   | Inr (win', r') \<Rightarrow>
       getBoundingClientRect jsdom_rect win' svg_element =
         Inr \<lparr>rect_width = 0, rect_height = 0, rect_top = 0, rect_left = 0,
              rect_bottom = 0, rect_right = 0, rect_x = 0, rect_y = 0\<rparr>"
  by (simp add: jsdom_patched getBoundingClientRect_def svg_element_def empty_object_def
      Element_prototype_def plain_def jsdom_rect_def)

text \<open>
  Claim C8, amended. After \<^verbatim>\<open>patchGeometry\<close> has returned normally, every element whose
  lookup of \<^verbatim>\<open>getBoundingClientRect\<close> reaches \<^verbatim>\<open>HTMLElement.prototype\<close> (an HTML element
  with no nearer property of that name) reports exactly width 100, height 50, top 0,
  left 0, bottom 50, right 100, x 0, y 0, whatever the host function would have returned;
  \<^verbatim>\<open>innerWidth\<close> and \<^verbatim>\<open>innerHeight\<close> read 1280 and 720, and assigning any value to
  either succeeds and is read back.
\<close>

theorem geometry_patch_installed:
  assumes "patchGeometry win r = Inr (win', r')"
  shows "(\<forall>chain. inherits_from_HTMLElement chain ''getBoundingClientRect'' \<longrightarrow>
            getBoundingClientRect hostRect win' chain =
              Inr \<lparr>rect_width = 100, rect_height = 50, rect_top = 0, rect_left = 0,
                   rect_bottom = 50, rect_right = 100, rect_x = 0, rect_y = 0\<rparr>) \<and>
         read (own win') ''innerWidth'' = Num 1280 \<and>
         read (own win') ''innerHeight'' = Num 720 \<and>
         (\<forall>v. \<exists>o2. assign (own win') ''innerWidth'' v = Inr o2 \<and> read o2 ''innerWidth'' = v) \<and>
         (\<forall>v. \<exists>o2. assign (own win') ''innerHeight'' v = Inr o2 \<and> read o2 ''innerHeight'' = v)"
proof -
  note p = patchGeometry_props [OF assms]
  from p(1) have "\<forall>chain. inherits_from_HTMLElement chain ''getBoundingClientRect'' \<longrightarrow>
      getBoundingClientRect hostRect win' chain = Inr mockRect"
    by (auto simp: getBoundingClientRect_def get_inherited)
  moreover from p(2) have "read (own win') ''innerWidth'' = Num 1280"
    by (auto simp: read_def)
  moreover from p(3) have "read (own win') ''innerHeight'' = Num 720"
    by (auto simp: read_def)
  moreover from p(2)
  have "\<forall>v. \<exists>o2. assign (own win') ''innerWidth'' v = Inr o2 \<and> read o2 ''innerWidth'' = v"
    using assign_writable by blast
  moreover from p(3)
  have "\<forall>v. \<exists>o2. assign (own win') ''innerHeight'' v = Inr o2 \<and> read o2 ''innerHeight'' = v"
    using assign_writable by blast
  ultimately show ?thesis by (simp add: mockRect_def)
qed

theorem geometry_patch_installed_witness:
  "\<exists>win' r'. patchGeometry jsdom_window realm0 = Inr (win', r') \<and>
     inherits_from_HTMLElement div_element ''getBoundingClientRect'' \<and>
     getBoundingClientRect jsdom_rect win' div_element =
       Inr \<lparr>rect_width = 100, rect_height = 50, rect_top = 0, rect_left = 0,
            rect_bottom = 50, rect_right = 100, rect_x = 0, rect_y = 0\<rparr> \<and>
     read (own win') ''innerWidth'' = Num 1280 \<and>
     read (own win') ''innerHeight'' = Num 720 \<and>
     (\<exists>o2. assign (own win') ''innerWidth'' (Num 500) = Inr o2 \<and>
           read o2 ''innerWidth'' = Num 500) \<and>
     (\<exists>o2. assign (own win') ''innerHeight'' (Num 400) = Inr o2 \<and>
           read o2 ''innerHeight'' = Num 400)"
proof -
  from jsdom_patched obtain win' r'
    where p: "patchGeometry jsdom_window realm0 = Inr (win', r')" by blast
  have d: "inherits_from_HTMLElement div_element ''getBoundingClientRect''"
    by (simp add: div_element_def empty_object_def)
  from geometry_patch_installed [OF p, of jsdom_rect] p d show ?thesis by blast
qed

text \<open>
  Whenever \<^verbatim>\<open>HTMLElement.prototype\<close> has no own \<^verbatim>\<open>getBoundingClientRect\<close>, as in jsdom, a
  patch that succeeded cannot be applied again: the property it created is neither
  writable nor configurable, and the next method literal is another object.
\<close>

lemma patchGeometry_again:
  assumes "props (HTMLElement_prototype win) ''getBoundingClientRect'' = None"
    and "patchGeometry win r = Inr (win', r')"
  shows "patchGeometry win' r' = Inl TypeError"
proof -
  from assms(2) obtain proto o2 where
    d1: "defineProperty (HTMLElement_prototype win) ''getBoundingClientRect''
           \<lparr>d_value = Some (Fn (RectMock (literals r))), d_writable = None,
            d_enumerable = None, d_configurable = None\<rparr> = Inr proto"
    and w: "win' = win\<lparr>HTMLElement_prototype := proto, own := o2\<rparr>"
    and r': "r' = r\<lparr>literals := literals r + 1\<rparr>"
    by (auto simp: patchGeometry_def split: sum.splits)
  from d1 assms(1) have
    "props proto ''getBoundingClientRect'' =
       Some \<lparr>p_value = Fn (RectMock (literals r)), p_writable = False,
             p_enumerable = False, p_configurable = False\<rparr>"
    by (auto simp: defineProperty_def or_else_def split: if_splits)
  then have "defineProperty proto ''getBoundingClientRect''
           \<lparr>d_value = Some (Fn (RectMock (literals r + 1))), d_writable = None,
            d_enumerable = None, d_configurable = None\<rparr> = Inl TypeError"
    by (simp add: defineProperty_def)
  then show ?thesis by (simp add: patchGeometry_def w r')
qed

text \<open>
  Claim C2 (the code departs from it). The claim says that applying a patch again raises
  no error and leaves behaviour as after one application. On a jsdom window the first
  \<^verbatim>\<open>applyJsdomExtended\<close> returns normally; applied again to the resulting window,
  \<^verbatim>\<open>patchGeometry\<close> throws \<^verbatim>\<open>TypeError\<close>, and so does the composer. The first application
  created \<^verbatim>\<open>getBoundingClientRect\<close> on \<^verbatim>\<open>HTMLElement.prototype\<close> from a descriptor with a
  value only, hence neither writable nor configurable, and the second offers another
  function object. The descriptors of \<^verbatim>\<open>innerWidth\<close> and \<^verbatim>\<open>innerHeight\<close> say
  \<^verbatim>\<open>writable: true, configurable: true\<close> and can be defined again.
\<close>

theorem second_application_throws:
  "case applyJsdomExtended jsdom_window realm0 of
     Inl e \<Rightarrow> False
   | Inr (w1, r1) \<Rightarrow>
       patchGeometry w1 r1 = Inl TypeError \<and> applyJsdomExtended w1 r1 = Inl TypeError"
  by (simp add: applyJsdomExtended_def patchRAF_def patchResizeObserver_def
      patchLocation_def assign_def Let_def plain_def jsdom_window_def realm0_def
      patchGeometry_def defineProperty_def or_else_def empty_object_def)

subsection \<open>The resize observer\<close>

lemma observe_fold:
  "calls (fold (observe this) els r) =
     calls r @ map (\<lambda>el. ResizeCall (cb this)
       [\<lparr>target = el, contentRect = \<lparr>width = 100, height = 100\<rparr>\<rparr>] this) els"
  by (induction els arbitrary: r) (simp_all add: observe_def)

text \<open>
  Claim C7. For every observer, element and realm, \<^verbatim>\<open>observe\<close> returns with exactly one
  more call recorded, the last of the realm it returns: the observer's callback, given a
  sequence of one entry whose target is the element and whose \<^verbatim>\<open>contentRect\<close> is width
  100, height 100; nothing else in the realm changes. Observing a list of elements calls
  the callback once for each, in order. \<^verbatim>\<open>disconnect\<close> and \<^verbatim>\<open>unobserve\<close>, called any
  number of times in any realm, return the realm they were given.
\<close>

theorem observe_calls_back_once:
  "calls (observe this el r) =
     calls r @ [ResizeCall (cb this)
       [\<lparr>target = el, contentRect = \<lparr>width = 100, height = 100\<rparr>\<rparr>] this] \<and>
   (observe this el r)\<lparr>calls := calls r\<rparr> = r \<and>
   calls (fold (observe this) els r) =
     calls r @ map (\<lambda>el. ResizeCall (cb this)
       [\<lparr>target = el, contentRect = \<lparr>width = 100, height = 100\<rparr>\<rparr>] this) els \<and>
   (disconnect this ^^ n) r = r \<and>
   (unobserve this ^^ n) r = r"
proof -
  have "(disconnect this ^^ n) r = r"
    by (induction n) (simp_all add: disconnect_def)
  moreover have "(unobserve this ^^ n) r = r"
    by (induction n) (simp_all add: unobserve_def)
  ultimately show ?thesis
    by (simp add: observe_fold) (simp add: observe_def)
qed


subsection \<open>The location snapshot\<close>

text \<open>
  Claim C3, as stated: the snapshot of \<^verbatim>\<open>getLocationInfo\<close> has eight fields. The object
  the code returns has nine.
\<close>

theorem snapshot_has_not_eight_fields:
  "length (getLocationInfo localhost_window) \<noteq> 8"
  by (simp add: getLocationInfo_def Let_def)

text \<open>
  Claim C3, amended. The snapshot has nine fields, \<^verbatim>\<open>href\<close>, \<^verbatim>\<open>origin\<close>, \<^verbatim>\<open>protocol\<close>,
  \<^verbatim>\<open>host\<close>, \<^verbatim>\<open>hostname\<close>, \<^verbatim>\<open>port\<close>, \<^verbatim>\<open>pathname\<close>, \<^verbatim>\<open>search\<close> and \<^verbatim>\<open>hash\<close>, each the
  string the location has when \<^verbatim>\<open>getLocationInfo\<close> is called. When the location is changed
  afterwards by \<^verbatim>\<open>navigateTo\<close>, the snapshot taken before still holds the strings of the
  location before the change, and a snapshot taken after holds those after it.
\<close>

theorem snapshot_copies_location:
  assumes "navigateTo nav win url = Inr win'"
  shows "length (getLocationInfo win) = 9 \<and>
         map fst (getLocationInfo win) =
           [''href'', ''origin'', ''protocol'', ''host'', ''hostname'', ''port'',
            ''pathname'', ''search'', ''hash''] \<and>
         map snd (getLocationInfo win) =
           [href (location win), origin (location win), protocol (location win),
            host (location win), hostname (location win), port (location win),
            pathname (location win), search (location win), hash (location win)] \<and>
         map snd (getLocationInfo win') =
           [href (location win'), origin (location win'), protocol (location win'),
            host (location win'), hostname (location win'), port (location win'),
            pathname (location win'), search (location win'), hash (location win')] \<and>
         nav url (location win) = Inr (location win')"
  using assms
  by (auto simp: getLocationInfo_def navigateTo_def Let_def split: sum.splits)

theorem snapshot_copies_location_witness:
  "\<exists>win'. navigateTo fragment_navigation localhost_window ''http://localhost:3000/#top''
       = Inr win' \<and>
     length (getLocationInfo localhost_window) = 9 \<and>
     map snd (getLocationInfo localhost_window) =
       [''http://localhost:3000/'', ''http://localhost:3000'', ''http:'', ''localhost:3000'',
        ''localhost'', ''3000'', ''/'', [], []] \<and>
     map snd (getLocationInfo win') =
       [''http://localhost:3000/#top'', ''http://localhost:3000'', ''http:'',
        ''localhost:3000'', ''localhost'', ''3000'', ''/'', [], ''#top'']"
proof -
  obtain win' where
    n: "navigateTo fragment_navigation localhost_window ''http://localhost:3000/#top''
          = Inr win'"
    by (simp add: navigateTo_def fragment_navigation_def)
  then have l: "location win' = \<lparr>href = ''http://localhost:3000/#top'',
        origin = ''http://localhost:3000'', protocol = ''http:'', host = ''localhost:3000'',
        hostname = ''localhost'', port = ''3000'', pathname = ''/'', search = [],
        hash = ''#top''\<rparr>"
    by (auto simp: navigateTo_def fragment_navigation_def localhost_window_def)
  have l0: "location localhost_window = \<lparr>href = ''http://localhost:3000/'',
        origin = ''http://localhost:3000'', protocol = ''http:'', host = ''localhost:3000'',
        hostname = ''localhost'', port = ''3000'', pathname = ''/'', search = [],
        hash = []\<rparr>"
    by (simp add: localhost_window_def)
  from snapshot_copies_location [OF n] n show ?thesis
    by (simp add: l l0)
qed

end
